theory Spec2Isabelle
  imports Complex_Main "HOL-Library.Sublist"
begin

section \<open>Python values\<close>

text \<open>
  The dynamic values the two scripts pass around: metadata and usage dictionaries, the
  parsed JSON answer of the inference server, the result dictionaries. A dictionary is an
  association list in insertion order (its keys are distinct in every dictionary the
  source builds). Python floats are written as reals: the source never computes with a
  float except for the elapsed time, and no property below depends on rounding. Strings
  are lists of bytes; the text the scripts handle is ASCII, except for the three marks of
  the progress lines, which are written as their UTF-8 bytes.
\<close>

datatype pyval =
    PNone
  | PBool bool
  | PInt int
  | PFloat real
  | PStr string
  | PList "pyval list"
  | PDict "(string \<times> pyval) list"

type_synonym pydict = "(string \<times> pyval) list"

text \<open>\<^verbatim>\<open>d.get(k, default)\<close>\<close>

definition dict_get :: "pydict \<Rightarrow> string \<Rightarrow> pyval \<Rightarrow> pyval" where
  "dict_get d k dflt = (case map_of d k of None \<Rightarrow> dflt | Some v \<Rightarrow> v)"

text \<open>\<^verbatim>\<open>x or ""\<close> on an optional string, \<^verbatim>\<open>x or {}\<close> on an optional dictionary: the
  left operand when it is truthy (neither \<^verbatim>\<open>None\<close> nor empty), the right one otherwise.\<close>

definition or_str :: "string option \<Rightarrow> string \<Rightarrow> string" where
  "or_str x dflt = (case x of None \<Rightarrow> dflt | Some s \<Rightarrow> if s = [] then dflt else s)"

text \<open>\<^verbatim>\<open>not x\<close> on an optional string.\<close>

definition falsy :: "string option \<Rightarrow> bool" where
  "falsy x = (case x of None \<Rightarrow> True | Some s \<Rightarrow> s = [])"

definition or_dict :: "pydict option \<Rightarrow> pydict \<Rightarrow> pydict" where
  "or_dict x dflt = (case x of None \<Rightarrow> dflt | Some d \<Rightarrow> if d = [] then dflt else d)"

text \<open>\<^verbatim>\<open>type(v).__name__\<close>\<close>

fun type_name :: "pyval \<Rightarrow> string" where
  "type_name PNone = ''NoneType''"
| "type_name (PBool _) = ''bool''"
| "type_name (PInt _) = ''int''"
| "type_name (PFloat _) = ''float''"
| "type_name (PStr _) = ''str''"
| "type_name (PList _) = ''list''"
| "type_name (PDict _) = ''dict''"

text \<open>\<^verbatim>\<open>str.upper()\<close> and \<^verbatim>\<open>str.strip()\<close> on ASCII text.\<close>

definition upper_char :: "char \<Rightarrow> char" where
  "upper_char c =
     (case map_of (zip ''abcdefghijklmnopqrstuvwxyz'' ''ABCDEFGHIJKLMNOPQRSTUVWXYZ'') c of
        None \<Rightarrow> c
      | Some u \<Rightarrow> u)"

definition upper :: "string \<Rightarrow> string" where
  "upper s = map upper_char s"

definition is_space :: "char \<Rightarrow> bool" where
  "is_space c = (let n = (of_char c :: nat) in (9 \<le> n \<and> n \<le> 13) \<or> (28 \<le> n \<and> n \<le> 32))"

definition strip :: "string \<Rightarrow> string" where
  "strip s = rev (dropWhile is_space (rev (dropWhile is_space s)))"

text \<open>The format \<^verbatim>\<open>{s:40s}\<close> pads a string with spaces on the right; the check mark, the
  cross and the arrow of the progress lines, in UTF-8.\<close>

definition ljust :: "nat \<Rightarrow> string \<Rightarrow> string" where
  "ljust n s = s @ replicate (n - length s) CHR '' ''"

definition check_mark :: string where
  "check_mark = [CHR 0xE2, CHR 0x9C, CHR 0x93]"

definition cross_mark :: string where
  "cross_mark = [CHR 0xE2, CHR 0x9C, CHR 0x97]"

definition arrow :: string where
  "arrow = [CHR 0xE2, CHR 0x86, CHR 0x92]"

text \<open>\<^verbatim>\<open>str(n)\<close> for an integer and \<^verbatim>\<open>int(x)\<close> for a float (truncation towards zero).\<close>

fun digits :: "nat \<Rightarrow> string" where
  "digits n =
     (if n < 10 then [''0123456789'' ! n] else digits (n div 10) @ [''0123456789'' ! (n mod 10)])"

declare digits.simps [simp del]

definition str_int :: "int \<Rightarrow> string" where
  "str_int i = (if i < 0 then ''-'' @ digits (nat (- i)) else digits (nat i))"

definition int_of_float :: "real \<Rightarrow> int" where
  "int_of_float x = (if 0 \<le> x then \<lfloor>x\<rfloor> else \<lceil>x\<rceil>)"

section \<open>Exceptions\<close>

text \<open>
  The built-in exception classes the source raises itself, any other class by its name
  (what writing to the console can raise), the message that \<^verbatim>\<open>str(e)\<close> returns, and
  \<^verbatim>\<open>type(e).__name__\<close>.
\<close>

datatype exc_class =
  ValueError | ConnectionError | TimeoutError | RuntimeError | OtherError string

datatype exn = Exn (exc_class: exc_class) (exc_str: string)

fun class_name :: "exc_class \<Rightarrow> string" where
  "class_name ValueError = ''ValueError''"
| "class_name ConnectionError = ''ConnectionError''"
| "class_name TimeoutError = ''TimeoutError''"
| "class_name RuntimeError = ''RuntimeError''"
| "class_name (OtherError name) = name"

text \<open>
  An exception raised by a library inside the \<^verbatim>\<open>try\<close> block of \<^verbatim>\<open>_call_ollama\<close>. The
  handlers look at three things only: whether it is an instance of
  \<^verbatim>\<open>requests.exceptions.ConnectionError\<close>, whether it is an instance of
  \<^verbatim>\<open>requests.exceptions.Timeout\<close> (a connect timeout is both), and its text.
\<close>

datatype lib_exception =
  Lib_exception (is_requests_ConnectionError: bool) (is_requests_Timeout: bool) (lib_str: string)

text \<open>\<^verbatim>\<open>AttributeError\<close>: calling a method the value does not have.\<close>

definition AttributeError :: "pyval \<Rightarrow> string \<Rightarrow> lib_exception" where
  "AttributeError v attr =
     Lib_exception False False
       ([CHR 0x27] @ type_name v @ [CHR 0x27] @ '' object has no attribute ''
          @ [CHR 0x27] @ attr @ [CHR 0x27])"

section \<open>The environment and the outside world\<close>

text \<open>
  What the scripts read from outside: the process environment (after \<^verbatim>\<open>load_dotenv\<close>),
  the clock (the k-th reading of \<^verbatim>\<open>time.time()\<close>), the inference server (the outcome of
  the k-th \<^verbatim>\<open>requests.post\<close>, given the URL and the JSON body; the timeout of 30 seconds
  is part of what decides that outcome), the console (whether the k-th call of \<^verbatim>\<open>print\<close>
  raises, given its text) and the two float formats of the f-strings (\<^verbatim>\<open>{x}\<close> and
  \<^verbatim>\<open>{x:.2f}\<close>).
\<close>

datatype response =
  Response (raise_for_status: "lib_exception option") (json: "lib_exception + pyval")

record env =
  environ :: "string \<Rightarrow> string option"
  clock :: "nat \<Rightarrow> real"
  requests_post :: "nat \<Rightarrow> string \<Rightarrow> pydict \<Rightarrow> lib_exception + response"
  print_raises :: "nat \<Rightarrow> string \<Rightarrow> exn option"
  float_str :: "real \<Rightarrow> string"
  float_2f :: "real \<Rightarrow> string"

text \<open>What the scripts do to the outside: clock readings taken, requests posted and texts
  passed to \<^verbatim>\<open>print\<close>.\<close>

record world =
  clock_reads :: nat
  http_log :: "(string \<times> pydict) list"
  stdout :: "string list"

text \<open>\<^verbatim>\<open>print(text)\<close>: the exception it raises, if any.\<close>

definition py_print :: "env \<Rightarrow> world \<Rightarrow> string \<Rightarrow> exn option \<times> world" where
  "py_print e w text = (print_raises e (length (stdout w)) text, w\<lparr>stdout := stdout w @ [text]\<rparr>)"

definition time_time :: "env \<Rightarrow> world \<Rightarrow> real \<times> world" where
  "time_time e w = (clock e (clock_reads w), w\<lparr>clock_reads := Suc (clock_reads w)\<rparr>)"

definition getenv :: "env \<Rightarrow> string \<Rightarrow> string \<Rightarrow> string" where
  "getenv e var dflt = (case environ e var of None \<Rightarrow> dflt | Some v \<Rightarrow> v)"

definition OLLAMA_API_URL :: "env \<Rightarrow> string" where
  "OLLAMA_API_URL e = getenv e ''OLLAMA_API_URL'' ''http://localhost:11434''"

definition OLLAMA_MODEL :: "env \<Rightarrow> string" where
  "OLLAMA_MODEL e = getenv e ''OLLAMA_MODEL'' ''llama3.1:8b''"

definition PROJECT_NAME :: string where
  "PROJECT_NAME = ''budget_claude''"

section \<open>The trace handle\<close>

text \<open>
  Modelled from the spec: the Langfuse SDK (the class \<^verbatim>\<open>Langfuse\<close> and the trace handle
  with its methods \<^verbatim>\<open>trace\<close>, \<^verbatim>\<open>span\<close>, \<^verbatim>\<open>generation\<close> and \<^verbatim>\<open>update\<close>) is imported by the
  source and is not part of it. Following the data model of the specification, a trace
  carries its creation arguments, the ordered sequence of observations appended to it
  (one of two variants, span or generation), and the outputs assigned to it by
  \<^verbatim>\<open>update\<close>, in call order. Each method call returns normally and appends what it was
  given; the usage of a generation has the fields \<^verbatim>\<open>prompt_tokens\<close> and
  \<^verbatim>\<open>completion_tokens\<close>, each zero when the mapping given does not have it; the terminal
  output is the last one assigned.
\<close>

datatype observation =
    Span (obs_name: string) (obs_input: string) (obs_output: string) (obs_metadata: pydict)
  | Generation (obs_name: string) (model: string) (obs_input: string) (obs_output: string)
      (usage: pydict) (obs_metadata: pydict)

record trace =
  trace_name :: string
  trace_user_id :: "string option"
  trace_session_id :: "string option"
  trace_metadata :: pydict
  observations :: "observation list"
  updates :: "pyval list"

record langfuse_client =
  public_key :: string
  secret_key :: string
  host :: string

definition langfuse_trace ::
  "langfuse_client \<Rightarrow> string \<Rightarrow> string option \<Rightarrow> string option \<Rightarrow> pydict \<Rightarrow> trace" where
  "langfuse_trace client name uid sid md =
     \<lparr>trace_name = name, trace_user_id = uid, trace_session_id = sid, trace_metadata = md,
      observations = [], updates = []\<rparr>"

definition trace_span :: "trace \<Rightarrow> string \<Rightarrow> string \<Rightarrow> string \<Rightarrow> pydict \<Rightarrow> trace" where
  "trace_span t name inp out md = t\<lparr>observations := observations t @ [Span name inp out md]\<rparr>"

definition usage_defaults :: "pydict \<Rightarrow> pydict" where
  "usage_defaults usg =
     usg
     @ (if map_of usg ''prompt_tokens'' = None then [(''prompt_tokens'', PInt 0)] else [])
     @ (if map_of usg ''completion_tokens'' = None then [(''completion_tokens'', PInt 0)] else [])"

definition trace_generation ::
  "trace \<Rightarrow> string \<Rightarrow> string \<Rightarrow> string \<Rightarrow> string \<Rightarrow> pydict \<Rightarrow> pydict \<Rightarrow> trace" where
  "trace_generation t name mdl inp out usg md =
     t\<lparr>observations := observations t @ [Generation name mdl inp out (usage_defaults usg) md]\<rparr>"

definition trace_update :: "trace \<Rightarrow> pyval \<Rightarrow> trace" where
  "trace_update t out = t\<lparr>updates := updates t @ [out]\<rparr>"

definition trace_output :: "trace \<Rightarrow> pyval option" where
  "trace_output t = (if updates t = [] then None else Some (last (updates t)))"

section \<open>tracing.py\<close>

definition default_langfuse_host :: string where
  "default_langfuse_host = ''http://localhost:3001''"

definition get_langfuse_client :: "env \<Rightarrow> string \<Rightarrow> string \<Rightarrow> exn + langfuse_client" where
  "get_langfuse_client e project_name langfuse_host =
     (let public_key_var = upper project_name @ ''_PUBLIC_KEY'';
          secret_key_var = upper project_name @ ''_SECRET_KEY'';
          public_key = environ e public_key_var;
          secret_key = environ e secret_key_var
      in if falsy public_key \<or> falsy secret_key
         then Inl (Exn ValueError
                (''Missing Langfuse API keys for project '' @ [CHR 0x27] @ project_name
                   @ [CHR 0x27] @ ''. Please set '' @ public_key_var @ '' and ''
                   @ secret_key_var @ '' in your .env file.''))
         else Inr \<lparr>public_key = the public_key, secret_key = the secret_key,
                   host = langfuse_host\<rparr>)"

definition create_trace ::
  "langfuse_client \<Rightarrow> string \<Rightarrow> string option \<Rightarrow> string option \<Rightarrow> pydict option \<Rightarrow> trace" where
  "create_trace langfuse name user_id session_id metadata =
     langfuse_trace langfuse name user_id session_id (or_dict metadata [])"

definition add_generation ::
  "trace \<Rightarrow> string \<Rightarrow> string \<Rightarrow> string \<Rightarrow> string \<Rightarrow> pydict option \<Rightarrow> pydict option \<Rightarrow> trace" where
  "add_generation t name mdl inp output usg metadata =
     trace_generation t name mdl inp output (or_dict usg []) (or_dict metadata [])"

definition add_span ::
  "trace \<Rightarrow> string \<Rightarrow> string option \<Rightarrow> string option \<Rightarrow> pydict option \<Rightarrow> trace" where
  "add_span t name inp output metadata =
     trace_span t name (or_str inp []) (or_str output []) (or_dict metadata [])"

section \<open>categorization_example.py\<close>

record transaction =
  tx_id :: string
  description :: string
  amount :: real
  date :: string

record categorizer =
  langfuse :: langfuse_client
  project_name :: string
  session_id :: string

text \<open>\<^verbatim>\<open>TransactionCategorizer.__init__\<close>: the client first, then the session identifier from
  the clock. A failure of \<^verbatim>\<open>get_langfuse_client\<close> leaves the constructor at once.\<close>

definition TransactionCategorizer :: "env \<Rightarrow> world \<Rightarrow> string \<Rightarrow> (exn + categorizer) \<times> world" where
  "TransactionCategorizer e w pname =
     (case get_langfuse_client e pname default_langfuse_host of
        Inl err \<Rightarrow> (Inl err, w)
      | Inr client \<Rightarrow>
          (let (now, w') = time_time e w
           in (Inr \<lparr>langfuse = client, project_name = pname,
                     session_id = pname @ ''_'' @ str_int (int_of_float now)\<rparr>, w')))"

definition nl :: string where
  "nl = [CHR 0x0A]"

definition create_prompt :: "env \<Rightarrow> transaction \<Rightarrow> string" where
  "create_prompt e transaction =
     ''Categorize the following financial transaction into ONE of these categories:'' @ nl
     @ ''- Food & Dining'' @ nl
     @ ''- Transportation'' @ nl
     @ ''- Shopping'' @ nl
     @ ''- Bills & Utilities'' @ nl
     @ ''- Healthcare'' @ nl
     @ ''- Entertainment'' @ nl
     @ ''- Other'' @ nl
     @ nl
     @ ''Transaction Description: '' @ description transaction @ nl
     @ ''Amount: $'' @ float_2f e (amount transaction) @ nl
     @ nl
     @ ''Respond with ONLY the category name, nothing else.''"

text \<open>The dictionary \<^verbatim>\<open>request_data\<close> that \<^verbatim>\<open>_call_ollama\<close> posts for a prompt.\<close>

definition request_body :: "env \<Rightarrow> string \<Rightarrow> pydict" where
  "request_body e prompt =
     [(''model'', PStr (OLLAMA_MODEL e)), (''prompt'', PStr prompt),
      (''temperature'', PFloat 0.3), (''top_p'', PFloat 0.9), (''stream'', PBool False)]"

text \<open>
  The \<^verbatim>\<open>try\<close> block of \<^verbatim>\<open>_call_ollama\<close>: post the request, check the status, parse the
  answer, take and strip the \<^verbatim>\<open>response\<close> field, record the generation. Every statement
  that can raise comes before \<^verbatim>\<open>add_generation\<close>, so a failure leaves the trace as it was.
  The metadata of the generation repeats the temperature and the top-p of the request.
\<close>

definition call_ollama_try ::
  "env \<Rightarrow> world \<Rightarrow> transaction \<Rightarrow> string \<Rightarrow> trace
     \<Rightarrow> (lib_exception + string \<times> real) \<times> trace \<times> world" where
  "call_ollama_try e w transaction prompt t =
     (let request_data = request_body e prompt;
          url = OLLAMA_API_URL e @ ''/api/generate'';
          w' = w\<lparr>http_log := http_log w @ [(url, request_data)]\<rparr>
      in case requests_post e (length (http_log w)) url request_data of
           Inl x \<Rightarrow> (Inl x, t, w')
         | Inr resp \<Rightarrow>
             (case raise_for_status resp of
                Some x \<Rightarrow> (Inl x, t, w')
              | None \<Rightarrow>
                  (case json resp of
                     Inl x \<Rightarrow> (Inl x, t, w')
                   | Inr response_data \<Rightarrow>
                       (case response_data of
                          PDict d \<Rightarrow>
                            (case dict_get d ''response'' (PStr []) of
                               PStr s \<Rightarrow>
                                 (let category = strip s;
                                      confidence = 0.95;
                                      t' = add_generation t ''ollama_categorization''
                                             (OLLAMA_MODEL e) prompt category
                                             (Some [(''prompt_tokens'',
                                                       dict_get d ''prompt_eval_count'' (PInt 0)),
                                                    (''completion_tokens'',
                                                       dict_get d ''eval_count'' (PInt 0))])
                                             (Some [(''temperature'', PFloat 0.3),
                                                    (''top_p'', PFloat 0.9),
                                                    (''ollama_host'', PStr (OLLAMA_API_URL e))])
                                  in (Inr (category, confidence), t', w'))
                             | v \<Rightarrow> (Inl (AttributeError v ''strip''), t, w'))
                        | v \<Rightarrow> (Inl (AttributeError v ''get''), t, w')))))"

text \<open>The three \<^verbatim>\<open>except\<close> clauses of \<^verbatim>\<open>_call_ollama\<close>, tried in the order of the source.\<close>

definition call_ollama_except :: "env \<Rightarrow> lib_exception \<Rightarrow> exn" where
  "call_ollama_except e x =
     (if is_requests_ConnectionError x then
        Exn ConnectionError
          (''Could not connect to Ollama at '' @ OLLAMA_API_URL e
             @ ''. Make sure Ollama is running and '' @ OLLAMA_MODEL e
             @ '' is loaded. Error: '' @ lib_str x)
      else if is_requests_Timeout x then
        Exn TimeoutError
          (''Request to Ollama timed out. The model '' @ OLLAMA_MODEL e @ '' might be slow.'')
      else Exn RuntimeError (''Error calling Ollama: '' @ lib_str x))"

definition call_ollama ::
  "env \<Rightarrow> world \<Rightarrow> transaction \<Rightarrow> string \<Rightarrow> trace \<Rightarrow> (exn + string \<times> real) \<times> trace \<times> world" where
  "call_ollama e w transaction prompt t =
     (case call_ollama_try e w transaction prompt t of
        (Inl x, t', w') \<Rightarrow> (Inl (call_ollama_except e x), t', w')
      | (Inr r, t', w') \<Rightarrow> (Inr r, t', w'))"

text \<open>
  The \<^verbatim>\<open>try\<close> block of \<^verbatim>\<open>categorize_transaction\<close>, on the trace the function has just
  created: the two preparation spans, the model call, the validation span, the result and
  the update of the trace.
\<close>

definition categorize_try ::
  "env \<Rightarrow> world \<Rightarrow> transaction \<Rightarrow> trace \<Rightarrow> (exn + pydict) \<times> trace \<times> world" where
  "categorize_try e w transaction t =
     (let t1 = add_span t ''prepare_transaction_data''
                 (Some (''ID: '' @ tx_id transaction @ '', Desc: '' @ description transaction
                          @ '', Amount: '' @ float_str e (amount transaction)))
                 (Some ''Transaction data prepared'')
                 (Some [(''step'', PInt 1)]);
          prompt = create_prompt e transaction;
          t2 = add_span t1 ''create_prompt'' None (Some prompt)
                 (Some [(''step'', PInt 2), (''prompt_length'', PInt (int (length prompt)))]);
          (start_time, w1) = time_time e w
      in case call_ollama e w1 transaction prompt t2 of
           (Inl err, t3, w2) \<Rightarrow> (Inl err, t3, w2)
         | (Inr (category, confidence), t3, w2) \<Rightarrow>
             (let (end_time, w3) = time_time e w2;
                  elapsed_time = end_time - start_time;
                  t4 = add_span t3 ''validate_result''
                         (Some (''Category: '' @ category @ '', Confidence: ''
                                  @ float_str e confidence))
                         (Some ''Validation passed'')
                         (Some [(''step'', PInt 4), (''valid'', PBool True)]);
                  result =
                    [(''transaction_id'', PStr (tx_id transaction)),
                     (''description'', PStr (description transaction)),
                     (''amount'', PFloat (amount transaction)),
                     (''category'', PStr category),
                     (''confidence'', PFloat confidence),
                     (''processing_time_ms'', PFloat (elapsed_time * 1000))];
                  t5 = trace_update t4 (PDict result)
              in (Inr result, t5, w3)))"

text \<open>The \<^verbatim>\<open>except Exception\<close> clause of \<^verbatim>\<open>categorize_transaction\<close>: record the error span,
  then \<^verbatim>\<open>raise\<close>.\<close>

definition categorize_except :: "exn \<Rightarrow> trace \<Rightarrow> trace" where
  "categorize_except err t =
     add_span t ''error'' (Some (class_name (exc_class err))) (Some (exc_str err))
       (Some [(''error'', PBool True)])"

definition categorize_transaction ::
  "categorizer \<Rightarrow> env \<Rightarrow> world \<Rightarrow> transaction \<Rightarrow> (exn + pydict) \<times> trace \<times> world" where
  "categorize_transaction self e w transaction =
     (let t = create_trace (langfuse self) ''categorize_transaction'' (Some ''system'')
                (Some (session_id self))
                (Some [(''transaction_id'', PStr (tx_id transaction)),
                       (''amount'', PFloat (amount transaction)),
                       (''date'', PStr (date transaction))])
      in case categorize_try e w transaction t of
           (Inl err, t', w') \<Rightarrow> (Inl err, categorize_except err t', w')
         | (Inr result, t', w') \<Rightarrow> (Inr result, t', w'))"

text \<open>
  \<^verbatim>\<open>categorize_batch\<close>. One turn of the loop: in the \<^verbatim>\<open>try\<close> block the unit runs, its result
  is appended and the progress line is printed; the \<^verbatim>\<open>except Exception\<close> clause, entered
  by an exception of the unit or of that \<^verbatim>\<open>print\<close>, prints the failure line and then
  appends the error dictionary. An exception of the second \<^verbatim>\<open>print\<close> leaves the function.
  The traces the units created are collected beside the results. The result of a unit
  always has a string under \<^verbatim>\<open>category\<close>, so \<^verbatim>\<open>result['category']\<close> is that string.
\<close>

definition category_text :: "pydict \<Rightarrow> string" where
  "category_text result = (case map_of result ''category'' of Some (PStr c) \<Rightarrow> c | _ \<Rightarrow> [])"

definition batch_except ::
  "env \<Rightarrow> world \<Rightarrow> transaction \<Rightarrow> exn \<Rightarrow> pydict list \<Rightarrow> exn option \<times> pydict list \<times> world" where
  "batch_except e w transaction err results =
     (case py_print e w
             (cross_mark @ '' Failed: '' @ ljust 40 (description transaction) @ '' '' @ arrow
                @ '' '' @ exc_str err) of
        (Some err', w') \<Rightarrow> (Some err', results, w')
      | (None, w') \<Rightarrow>
          (None,
           results @ [[(''transaction_id'', PStr (tx_id transaction)),
                       (''description'', PStr (description transaction)),
                       (''amount'', PFloat (amount transaction)),
                       (''error'', PStr (exc_str err))]],
           w'))"

definition batch_unit ::
  "categorizer \<Rightarrow> env \<Rightarrow> pydict list \<Rightarrow> world \<Rightarrow> transaction
     \<Rightarrow> exn option \<times> pydict list \<times> trace \<times> world" where
  "batch_unit self e results w transaction =
     (case categorize_transaction self e w transaction of
        (Inr result, t, w1) \<Rightarrow>
          (case py_print e w1
                  (check_mark @ '' Categorized: '' @ ljust 40 (description transaction) @ '' ''
                     @ arrow @ '' '' @ category_text result) of
             (None, w2) \<Rightarrow> (None, results @ [result], t, w2)
           | (Some err, w2) \<Rightarrow>
               (case batch_except e w2 transaction err (results @ [result]) of
                  (out, results', w3) \<Rightarrow> (out, results', t, w3)))
      | (Inl err, t, w1) \<Rightarrow>
          (case batch_except e w1 transaction err results of
             (out, results', w2) \<Rightarrow> (out, results', t, w2)))"

fun categorize_batch_loop ::
  "categorizer \<Rightarrow> env \<Rightarrow> pydict list \<times> trace list \<times> world \<Rightarrow> transaction list
     \<Rightarrow> (exn + pydict list) \<times> trace list \<times> world" where
  "categorize_batch_loop self e (results, traces, w) [] = (Inr results, traces, w)"
| "categorize_batch_loop self e (results, traces, w) (transaction # rest) =
     (case batch_unit self e results w transaction of
        (None, results', t, w') \<Rightarrow>
          categorize_batch_loop self e (results', traces @ [t], w') rest
      | (Some err, results', t, w') \<Rightarrow> (Inl err, traces @ [t], w'))"

definition categorize_batch ::
  "categorizer \<Rightarrow> env \<Rightarrow> world \<Rightarrow> transaction list
     \<Rightarrow> (exn + pydict list) \<times> trace list \<times> world" where
  "categorize_batch self e w transactions = categorize_batch_loop self e ([], [], w) transactions"

definition sample_transactions :: "transaction list" where
  "sample_transactions =
     [\<lparr>tx_id = ''txn_001'', description = ''Starbucks Coffee'', amount = 5.50, date = ''2024-01-15''\<rparr>,
      \<lparr>tx_id = ''txn_002'', description = ''Uber to Airport'', amount = 42.00, date = ''2024-01-15''\<rparr>,
      \<lparr>tx_id = ''txn_003'', description = ''Whole Foods Groceries'', amount = 87.50, date = ''2024-01-15''\<rparr>,
      \<lparr>tx_id = ''txn_004'', description = ''Movie Tickets'', amount = 28.00, date = ''2024-01-15''\<rparr>,
      \<lparr>tx_id = ''txn_005'', description = ''CVS Pharmacy'', amount = 15.30, date = ''2024-01-15''\<rparr>]"

text \<open>\<^verbatim>\<open>main\<close>, as what it leaves behind: the results it obtained (none when the batch
  raised), the traces and the world. A \<^verbatim>\<open>ValueError\<close> of the constructor ends it before the
  batch. The lines \<^verbatim>\<open>main\<close> prints itself are left out: a failure of one of them can only
  end \<^verbatim>\<open>main\<close> earlier.\<close>

definition main :: "env \<Rightarrow> world \<Rightarrow> pydict list \<times> trace list \<times> world" where
  "main e w =
     (case TransactionCategorizer e w PROJECT_NAME of
        (Inl err, w') \<Rightarrow> ([], [], w')
      | (Inr self, w') \<Rightarrow>
          (case categorize_batch self e w' sample_transactions of
             (Inr results, traces, w'') \<Rightarrow> (results, traces, w'')
           | (Inl err, traces, w'') \<Rightarrow> ([], traces, w'')))"

section \<open>Notions used to state the properties\<close>

text \<open>A call of the Observation Recorder by a caller holding a trace, and the observation
  the call stands for once the defaults for absent arguments are filled in.\<close>

datatype recorder_call =
    Record_span string "string option" "string option" "pydict option"
  | Record_generation string string string string "pydict option" "pydict option"

fun record_call :: "trace \<Rightarrow> recorder_call \<Rightarrow> trace" where
  "record_call t (Record_span name inp out md) = add_span t name inp out md"
| "record_call t (Record_generation name mdl inp out usg md) =
     add_generation t name mdl inp out usg md"

fun observation_of :: "recorder_call \<Rightarrow> observation" where
  "observation_of (Record_span name inp out md) =
     Span name (case inp of None \<Rightarrow> [] | Some s \<Rightarrow> s) (case out of None \<Rightarrow> [] | Some s \<Rightarrow> s)
       (case md of None \<Rightarrow> [] | Some d \<Rightarrow> d)"
| "observation_of (Record_generation name mdl inp out usg md) =
     Generation name mdl inp out (usage_defaults (case usg of None \<Rightarrow> [] | Some d \<Rightarrow> d))
       (case md of None \<Rightarrow> [] | Some d \<Rightarrow> d)"

section \<open>Example inputs\<close>

text \<open>An environment with both keys of the project, a clock, a server that answers every
  request with a category and no token counters, and a console that takes every line.\<close>

definition env_ok :: env where
  "env_ok =
     \<lparr>environ = [''BUDGET_CLAUDE_PUBLIC_KEY'' \<mapsto> ''pk-1'',
                 ''BUDGET_CLAUDE_SECRET_KEY'' \<mapsto> ''sk-1''],
      clock = (\<lambda>k. 1700000000 + real k),
      requests_post =
        (\<lambda>k url body. Inr (Response None (Inr (PDict [(''response'', PStr '' Shopping'')])))),
      print_raises = (\<lambda>k text. None),
      float_str = (\<lambda>x. if x = 0.95 then ''0.95'' else if x = 5.5 then ''5.5'' else ''42.0''),
      float_2f = (\<lambda>x. if x = 5.5 then ''5.50'' else ''42.00'')\<rparr>"

text \<open>The same with a server whose every request times out while reading.\<close>

definition env_timeout :: env where
  "env_timeout =
     env_ok\<lparr>requests_post :=
              (\<lambda>k url body. Inl (Lib_exception False True ''Read timed out. (read timeout=30)''))\<rparr>"

text \<open>A server that answers with an empty completion.\<close>

definition env_empty :: env where
  "env_empty =
     env_ok\<lparr>requests_post :=
              (\<lambda>k url body. Inr (Response None (Inr (PDict [(''response'', PStr [])]))))\<rparr>"

text \<open>A server that refuses the first connection and answers afterwards.\<close>

definition env_first_fails :: env where
  "env_first_fails =
     env_ok\<lparr>requests_post :=
              (\<lambda>k url body.
                 if k = 0 then Inl (Lib_exception True False ''Connection refused'')
                 else Inr (Response None (Inr (PDict [(''response'', PStr ''Transportation'')]))))\<rparr>"

text \<open>No key at all, and a public key that is set but empty.\<close>

definition env_no_keys :: env where
  "env_no_keys = env_ok\<lparr>environ := Map.empty\<rparr>"

definition env_empty_key :: env where
  "env_empty_key =
     env_ok\<lparr>environ := [''BUDGET_CLAUDE_PUBLIC_KEY'' \<mapsto> [],
                          ''BUDGET_CLAUDE_SECRET_KEY'' \<mapsto> ''sk-1'']\<rparr>"

text \<open>A server to which every connection times out, a console that cannot encode a byte
  outside ASCII, and a console whose first write fails.\<close>

definition env_connect_timeout :: env where
  "env_connect_timeout =
     env_ok\<lparr>requests_post :=
              (\<lambda>k url body.
                 Inl (Lib_exception True True
                        ''Connection to localhost timed out. (connect timeout=30)''))\<rparr>"

definition env_ascii_stdout :: env where
  "env_ascii_stdout =
     env_ok\<lparr>print_raises :=
              (\<lambda>k text.
                 if list_ex (\<lambda>c. 128 \<le> (of_char c :: nat)) text
                 then Some (Exn (OtherError ''UnicodeEncodeError'')
                              ''ordinal not in range(128)'')
                 else None)\<rparr>"

definition env_first_print_fails :: env where
  "env_first_print_fails =
     env_ok\<lparr>print_raises :=
              (\<lambda>k text. if k = 0 then Some (Exn (OtherError ''OSError'') ''write failed'')
                        else None)\<rparr>"

definition w_init :: world where
  "w_init = \<lparr>clock_reads = 0, http_log = [], stdout = []\<rparr>"

definition client0 :: langfuse_client where
  "client0 = \<lparr>public_key = ''pk-1'', secret_key = ''sk-1'', host = ''http://localhost:3001''\<rparr>"

definition self0 :: categorizer where
  "self0 = \<lparr>langfuse = client0, project_name = ''budget_claude'',
            session_id = ''budget_claude_1700000000''\<rparr>"

definition tx1 :: transaction where
  "tx1 = \<lparr>tx_id = ''txn_001'', description = ''Starbucks Coffee'', amount = 5.50,
          date = ''2024-01-15''\<rparr>"

definition tx2 :: transaction where
  "tx2 = \<lparr>tx_id = ''txn_002'', description = ''Uber to Airport'', amount = 42.00,
          date = ''2024-01-15''\<rparr>"

section \<open>What the recorder does to a trace\<close>

lemma or_str_eq: "or_str x [] = (case x of None \<Rightarrow> [] | Some s \<Rightarrow> s)"
  by (simp add: or_str_def split: option.splits)

lemma or_dict_eq: "or_dict x [] = (case x of None \<Rightarrow> [] | Some d \<Rightarrow> d)"
  by (simp add: or_dict_def split: option.splits)

lemma observations_add_span:
  "observations (add_span t n i out m) =
     observations t @ [Span n (or_str i []) (or_str out []) (or_dict m [])]"
  by (simp add: add_span_def trace_span_def)

lemma updates_add_span: "updates (add_span t n i out m) = updates t"
  by (simp add: add_span_def trace_span_def)

lemma observations_add_generation:
  "observations (add_generation t n mdl i out u m) =
     observations t @ [Generation n mdl i out (usage_defaults (or_dict u [])) (or_dict m [])]"
  by (simp add: add_generation_def trace_generation_def)

lemma updates_add_generation: "updates (add_generation t n mdl i out u m) = updates t"
  by (simp add: add_generation_def trace_generation_def)

lemma observations_trace_update: "observations (trace_update t v) = observations t"
  by (simp add: trace_update_def)

lemma updates_trace_update: "updates (trace_update t v) = updates t @ [v]"
  by (simp add: trace_update_def)

lemma observations_create_trace: "observations (create_trace c n u s m) = []"
  by (simp add: create_trace_def langfuse_trace_def)

lemma updates_create_trace: "updates (create_trace c n u s m) = []"
  by (simp add: create_trace_def langfuse_trace_def)

lemmas trace_simps =
  observations_add_span updates_add_span observations_add_generation updates_add_generation
  observations_trace_update updates_trace_update observations_create_trace updates_create_trace

lemma observations_record_call:
  "observations (record_call t c) = observations t @ [observation_of c]"
  by (cases c) (simp_all add: trace_simps or_str_eq or_dict_eq)

text \<open>
  Claim C2. The success scenario: a trace is opened for the unit, one span (name
  "prepare", output "ready") and one generation (name "infer", model "m", input "x",
  output "y", 5 prompt tokens and 1 completion token) are recorded, and the trace is
  closed with the output \<^verbatim>\<open>{"result": "y"}\<close>. The trace then holds exactly these two
  observations, the span before the generation, and its terminal output is that
  dictionary. This holds for every client the trace is opened with.
\<close>

theorem scenario_span_generation_close:
  "(let t0 = create_trace c ''unit'' None (Some ''P_123'') None;
        t1 = add_span t0 ''prepare'' None (Some ''ready'') None;
        t2 = add_generation t1 ''infer'' ''m'' ''x'' ''y''
               (Some [(''prompt_tokens'', PInt 5), (''completion_tokens'', PInt 1)]) None;
        t3 = trace_update t2 (PDict [(''result'', PStr ''y'')])
    in observations t3 =
         [Span ''prepare'' [] ''ready'' [],
          Generation ''infer'' ''m'' ''x'' ''y''
            [(''prompt_tokens'', PInt 5), (''completion_tokens'', PInt 1)] []]
       \<and> length (observations t3) = 2
       \<and> trace_output t3 = Some (PDict [(''result'', PStr ''y'')]))"
  by (simp add: Let_def trace_simps trace_output_def or_str_def or_dict_def usage_defaults_def)

text \<open>
  Claim C4. For every sequence of recorder calls made one after the other on a trace, the
  observations of the trace afterwards are the ones it had before followed by the
  observations of the calls, one per call and in call order; on a trace that has just been
  created, the recorded sequence is exactly the call sequence.
\<close>

theorem recorded_order_is_call_order:
  "observations (foldl record_call t calls) = observations t @ map observation_of calls
   \<and> observations (foldl record_call (create_trace c n u s m) calls) = map observation_of calls"
proof -
  have "observations (foldl record_call t' calls) = observations t' @ map observation_of calls"
    for t'
    by (induction calls arbitrary: t') (simp_all add: observations_record_call)
  then show ?thesis
    by (simp add: observations_create_trace)
qed

text \<open>
  Claim C10. Recording appends and never replaces: two calls of \<^verbatim>\<open>add_span\<close> (or of
  \<^verbatim>\<open>add_generation\<close>) with the same arguments leave two observations at the end of the
  sequence, equal in content and at two positions, and the sequence is longer by two.
\<close>

theorem recording_twice_appends_twice:
  "observations (add_span (add_span t n i out m) n i out m) =
     observations t @ [Span n (or_str i []) (or_str out []) (or_dict m []),
                       Span n (or_str i []) (or_str out []) (or_dict m [])]
   \<and> observations (add_generation (add_generation t n mdl gi gout u m) n mdl gi gout u m) =
     observations t @ [Generation n mdl gi gout (usage_defaults (or_dict u [])) (or_dict m []),
                       Generation n mdl gi gout (usage_defaults (or_dict u [])) (or_dict m [])]
   \<and> length (observations (add_span (add_span t n i out m) n i out m)) =
       length (observations t) + 2
   \<and> length (observations (add_generation (add_generation t n mdl gi gout u m)
               n mdl gi gout u m)) = length (observations t) + 2"
  by (simp add: trace_simps)

section \<open>One unit of work\<close>

lemma call_ollama_try_Inl:
  "call_ollama_try e w tx p t = (Inl x, t', w') \<Longrightarrow> t' = t"
  by (auto simp: call_ollama_try_def Let_def split: sum.splits option.splits pyval.splits)

lemma call_ollama_try_Inr:
  "call_ollama_try e w tx p t = (Inr r, t', w') \<Longrightarrow>
     updates t' = updates t
     \<and> (\<exists>g. observations t' = observations t @ [g] \<and> obs_name g = ''ollama_categorization'')"
  by (auto simp: call_ollama_try_def Let_def trace_simps split: sum.splits option.splits pyval.splits)

lemma call_ollama_Inl:
  "call_ollama e w tx p t = (Inl err, t', w') \<Longrightarrow>
     t' = t \<and> (\<exists>x. call_ollama_try e w tx p t = (Inl x, t, w') \<and> err = call_ollama_except e x)"
  by (auto simp: call_ollama_def split: prod.splits sum.splits dest: call_ollama_try_Inl)

lemma call_ollama_Inr:
  "call_ollama e w tx p t = (Inr r, t', w') \<Longrightarrow>
     updates t' = updates t
     \<and> (\<exists>g. observations t' = observations t @ [g] \<and> obs_name g = ''ollama_categorization'')"
  by (auto simp: call_ollama_def split: prod.splits sum.splits dest: call_ollama_try_Inr)

lemma categorize_try_Inl:
  assumes "categorize_try e w tx t = (Inl err, t', w')"
  shows "updates t' = updates t
     \<and> (\<exists>a b. observations t' = observations t @ [a, b]
            \<and> obs_name a = ''prepare_transaction_data'' \<and> obs_name b = ''create_prompt'')"
  using assms
  by (auto simp: categorize_try_def Let_def trace_simps time_time_def
      split: prod.splits sum.splits dest!: call_ollama_Inl)

lemma categorize_try_Inr:
  assumes "categorize_try e w tx t = (Inr result, t', w')"
  shows "updates t' = updates t @ [PDict result]
     \<and> (\<exists>a b g v. observations t' = observations t @ [a, b, g, v]
            \<and> obs_name a = ''prepare_transaction_data'' \<and> obs_name b = ''create_prompt''
            \<and> obs_name g = ''ollama_categorization'' \<and> obs_name v = ''validate_result'')"
  using assms
  by (auto simp: categorize_try_def Let_def trace_simps time_time_def
      split: prod.splits sum.splits dest!: call_ollama_Inr)

lemmas example_defs =
  env_ok_def env_timeout_def env_empty_def env_first_fails_def env_connect_timeout_def
  env_ascii_stdout_def env_first_print_fails_def w_init_def client0_def self0_def
  tx1_def tx2_def

lemmas model_defs =
  categorize_transaction_def categorize_try_def categorize_except_def call_ollama_def
  call_ollama_try_def call_ollama_except_def request_body_def create_prompt_def nl_def
  OLLAMA_API_URL_def OLLAMA_MODEL_def getenv_def time_time_def dict_get_def
  create_trace_def add_span_def add_generation_def trace_span_def trace_generation_def
  trace_update_def langfuse_trace_def or_str_def or_dict_def usage_defaults_def Let_def

lemma timeout_unit_raises:
  "fst (categorize_transaction self0 env_timeout w_init tx1) =
     Inl (Exn TimeoutError ''Request to Ollama timed out. The model llama3.1:8b might be slow.'')"
  by (simp add: model_defs example_defs)

lemma ok_unit_returns:
  "\<exists>result. fst (categorize_transaction self0 env_ok w_init tx1) = Inr result"
  by (simp add: model_defs example_defs strip_def is_space_def)

lemma unit_updates:
  assumes "categorize_transaction self e w tx = (r, t, w')"
  shows "length (updates t) \<le> 1
     \<and> (\<forall>result. r = Inr result \<longrightarrow> updates t = [PDict result])
     \<and> (\<forall>err. r = Inl err \<longrightarrow> updates t = [])"
  using assms
  by (auto simp: categorize_transaction_def Let_def categorize_except_def trace_simps
      split: prod.splits sum.splits dest!: categorize_try_Inl categorize_try_Inr)

text \<open>
  Claim C3. Whatever the environment, the categorizer, the world and the transaction, the
  trace of one unit of work has its output assigned at most once: exactly once, with the
  result, when the unit returns, and never when it raises.
\<close>

theorem output_assigned_at_most_once:
  "length (updates (fst (snd (categorize_transaction self e w tx)))) \<le> 1
   \<and> (\<forall>result. fst (categorize_transaction self e w tx) = Inr result \<longrightarrow>
          updates (fst (snd (categorize_transaction self e w tx))) = [PDict result])
   \<and> (\<forall>err. fst (categorize_transaction self e w tx) = Inl err \<longrightarrow>
          updates (fst (snd (categorize_transaction self e w tx))) = [])"
proof -
  obtain r t w' where X: "categorize_transaction self e w tx = (r, t, w')"
    by (cases "categorize_transaction self e w tx") auto
  show ?thesis
    using unit_updates [OF X] by (simp add: X)
qed

theorem output_assigned_at_most_once_witness:
  "(\<exists>err. fst (categorize_transaction self0 env_timeout w_init tx1) = Inl err)
   \<and> updates (fst (snd (categorize_transaction self0 env_timeout w_init tx1))) = []
   \<and> (\<exists>result. fst (categorize_transaction self0 env_ok w_init tx1) = Inr result)
   \<and> length (updates (fst (snd (categorize_transaction self0 env_ok w_init tx1)))) = 1"
  using output_assigned_at_most_once [of self0 env_timeout w_init tx1]
        output_assigned_at_most_once [of self0 env_ok w_init tx1]
        timeout_unit_raises ok_unit_returns
  by auto

lemma categorize_try_raises:
  "fst (categorize_try e w tx t) = Inl err \<longleftrightarrow>
     fst (call_ollama e (snd (time_time e w)) tx (create_prompt e tx)
            (add_span
               (add_span t ''prepare_transaction_data''
                  (Some (''ID: '' @ tx_id tx @ '', Desc: '' @ description tx
                           @ '', Amount: '' @ float_str e (amount tx)))
                  (Some ''Transaction data prepared'') (Some [(''step'', PInt 1)]))
               ''create_prompt'' None (Some (create_prompt e tx))
               (Some [(''step'', PInt 2),
                      (''prompt_length'', PInt (int (length (create_prompt e tx))))]))) = Inl err"
  by (auto simp: categorize_try_def Let_def split: prod.splits sum.splits)

lemma unit_raises_iff:
  "fst (categorize_transaction self e w tx) = Inl err \<longleftrightarrow>
     fst (categorize_try e w tx
            (create_trace (langfuse self) ''categorize_transaction'' (Some ''system'')
               (Some (session_id self))
               (Some [(''transaction_id'', PStr (tx_id tx)), (''amount'', PFloat (amount tx)),
                      (''date'', PStr (date tx))]))) = Inl err"
  by (auto simp: categorize_transaction_def Let_def split: prod.splits sum.splits)

lemma unit_error_span:
  assumes "categorize_try e w tx
            (create_trace (langfuse self) ''categorize_transaction'' (Some ''system'')
               (Some (session_id self))
               (Some [(''transaction_id'', PStr (tx_id tx)), (''amount'', PFloat (amount tx)),
                      (''date'', PStr (date tx))])) = (Inl err, t1, w1)"
  shows "categorize_transaction self e w tx =
           (Inl err,
            t1\<lparr>observations := observations t1 @
                  [Span ''error'' (class_name (exc_class err)) (exc_str err)
                     [(''error'', PBool True)]]\<rparr>,
            w1)
         \<and> length (filter (\<lambda>ob. obs_name ob = ''error'') (observations t1)) = 0
         \<and> updates t1 = []"
  using assms categorize_try_Inl [OF assms]
  by (auto simp: categorize_transaction_def Let_def categorize_except_def add_span_def
      trace_span_def or_str_def or_dict_def trace_simps)

lemma timeout_step_raises:
  "fst (call_ollama env_timeout (snd (time_time env_timeout w_init)) tx1
          (create_prompt env_timeout tx1)
          (add_span
             (add_span
                (create_trace (langfuse self0) ''categorize_transaction'' (Some ''system'')
                   (Some (session_id self0))
                   (Some [(''transaction_id'', PStr (tx_id tx1)),
                          (''amount'', PFloat (amount tx1)), (''date'', PStr (date tx1))]))
                ''prepare_transaction_data''
                (Some (''ID: '' @ tx_id tx1 @ '', Desc: '' @ description tx1
                         @ '', Amount: '' @ float_str env_timeout (amount tx1)))
                (Some ''Transaction data prepared'') (Some [(''step'', PInt 1)]))
             ''create_prompt'' None (Some (create_prompt env_timeout tx1))
             (Some [(''step'', PInt 2),
                    (''prompt_length'', PInt (int (length (create_prompt env_timeout tx1))))])))
     = Inl (Exn TimeoutError ''Request to Ollama timed out. The model llama3.1:8b might be slow.'')"
  by (simp add: call_ollama_def call_ollama_try_def call_ollama_except_def Let_def
      OLLAMA_MODEL_def getenv_def env_timeout_def env_ok_def)

text \<open>
  Claim C1. A unit of work raises exactly when its pipeline (the \<^verbatim>\<open>try\<close> block) raises, and
  it raises the same exception. When the pipeline raises, the trace of the unit is the one
  the pipeline left with exactly one observation appended at its end, the span named
  "error" whose input is the name of the exception class and whose output is the message;
  no other observation of the trace is named "error" and the output of the trace is never
  assigned. The pipeline step that can fail in this model is the model invocation (the
  calls on the trace handle return normally): when it raises, the unit raises the same
  exception and its trace holds the two preparation spans followed by the error span.
\<close>

theorem error_span_then_reraise:
  "(fst (categorize_try e w tx
            (create_trace (langfuse self) ''categorize_transaction'' (Some ''system'')
               (Some (session_id self))
               (Some [(''transaction_id'', PStr (tx_id tx)), (''amount'', PFloat (amount tx)),
                      (''date'', PStr (date tx))]))) = Inl err
    \<longrightarrow> fst (categorize_transaction self e w tx) = Inl err
      \<and> fst (snd (categorize_transaction self e w tx)) =
          (fst (snd (categorize_try e w tx
            (create_trace (langfuse self) ''categorize_transaction'' (Some ''system'')
               (Some (session_id self))
               (Some [(''transaction_id'', PStr (tx_id tx)), (''amount'', PFloat (amount tx)),
                      (''date'', PStr (date tx))])))))
          \<lparr>observations :=
             observations (fst (snd (categorize_try e w tx
               (create_trace (langfuse self) ''categorize_transaction'' (Some ''system'')
                  (Some (session_id self))
                  (Some [(''transaction_id'', PStr (tx_id tx)), (''amount'', PFloat (amount tx)),
                         (''date'', PStr (date tx))])))))
             @ [Span ''error'' (class_name (exc_class err)) (exc_str err)
                  [(''error'', PBool True)]]\<rparr>
      \<and> length (filter (\<lambda>ob. obs_name ob = ''error'')
           (observations (fst (snd (categorize_transaction self e w tx))))) = 1
      \<and> updates (fst (snd (categorize_transaction self e w tx))) = [])
   \<and> (fst (categorize_transaction self e w tx) = Inl err
    \<longrightarrow> fst (categorize_try e w tx
            (create_trace (langfuse self) ''categorize_transaction'' (Some ''system'')
               (Some (session_id self))
               (Some [(''transaction_id'', PStr (tx_id tx)), (''amount'', PFloat (amount tx)),
                      (''date'', PStr (date tx))]))) = Inl err)
   \<and> (fst (call_ollama e (snd (time_time e w)) tx (create_prompt e tx)
            (add_span
               (add_span
                  (create_trace (langfuse self) ''categorize_transaction'' (Some ''system'')
                     (Some (session_id self))
                     (Some [(''transaction_id'', PStr (tx_id tx)),
                            (''amount'', PFloat (amount tx)), (''date'', PStr (date tx))]))
                  ''prepare_transaction_data''
                  (Some (''ID: '' @ tx_id tx @ '', Desc: '' @ description tx
                           @ '', Amount: '' @ float_str e (amount tx)))
                  (Some ''Transaction data prepared'') (Some [(''step'', PInt 1)]))
               ''create_prompt'' None (Some (create_prompt e tx))
               (Some [(''step'', PInt 2),
                      (''prompt_length'', PInt (int (length (create_prompt e tx))))]))) = Inl err
    \<longrightarrow> fst (categorize_transaction self e w tx) = Inl err
      \<and> map obs_name (observations (fst (snd (categorize_transaction self e w tx)))) =
          [''prepare_transaction_data'', ''create_prompt'', ''error'']
      \<and> last (observations (fst (snd (categorize_transaction self e w tx)))) =
          Span ''error'' (class_name (exc_class err)) (exc_str err) [(''error'', PBool True)])"
  (is "(?body \<longrightarrow> ?A) \<and> (?unit \<longrightarrow> ?B) \<and> (?step \<longrightarrow> ?C)")
proof -
  let ?T0 = "create_trace (langfuse self) ''categorize_transaction'' (Some ''system'')
               (Some (session_id self))
               (Some [(''transaction_id'', PStr (tx_id tx)), (''amount'', PFloat (amount tx)),
                      (''date'', PStr (date tx))])"
  have A: ?A if a: ?body
  proof -
    obtain t1 w1 where X: "categorize_try e w tx ?T0 = (Inl err, t1, w1)"
      using a by (cases "categorize_try e w tx ?T0") auto
    show ?thesis
      using unit_error_span [OF X] by (simp add: X)
  qed
  have B: ?B if ?unit
    using that by (simp only: unit_raises_iff)
  have C: ?C if s: ?step
  proof -
    from s have t: ?body
      by (simp only: categorize_try_raises)
    obtain t1 w1 where X: "categorize_try e w tx ?T0 = (Inl err, t1, w1)"
      using t by (cases "categorize_try e w tx ?T0") auto
    from categorize_try_Inl [OF X] obtain a b where
      ab: "observations t1 = [a, b]" "obs_name a = ''prepare_transaction_data''"
        "obs_name b = ''create_prompt''"
      by (auto simp: trace_simps)
    have u: "fst (categorize_transaction self e w tx) = Inl err"
      using unit_error_span [OF X] by simp
    have n: "map obs_name (observations (fst (snd (categorize_transaction self e w tx)))) =
          [''prepare_transaction_data'', ''create_prompt'', ''error'']"
      using unit_error_span [OF X] ab by simp
    have l: "last (observations (fst (snd (categorize_transaction self e w tx)))) =
          Span ''error'' (class_name (exc_class err)) (exc_str err) [(''error'', PBool True)]"
      using unit_error_span [OF X] by simp
    from u n l show ?thesis
      by (intro conjI)
  qed
  from A B C show ?thesis
    by blast
qed

theorem error_span_then_reraise_witness:
  "fst (categorize_transaction self0 env_timeout w_init tx1) =
     Inl (Exn TimeoutError ''Request to Ollama timed out. The model llama3.1:8b might be slow.'')
   \<and> map obs_name (observations (fst (snd (categorize_transaction self0 env_timeout w_init tx1))))
       = [''prepare_transaction_data'', ''create_prompt'', ''error'']
   \<and> last (observations (fst (snd (categorize_transaction self0 env_timeout w_init tx1)))) =
       Span ''error'' ''TimeoutError''
         ''Request to Ollama timed out. The model llama3.1:8b might be slow.''
         [(''error'', PBool True)]"
  using mp [OF conjunct2 [OF conjunct2 [OF error_span_then_reraise]] timeout_step_raises]
  by simp

section \<open>The model invocation\<close>

lemma timed_out_in_message:
  "sublist ''timed out'' (''Request to Ollama timed out. The model '' @ m @ '' might be slow.'')"
  unfolding sublist_def
  by (rule exI [of _ "''Request to Ollama ''"],
      rule exI [of _ "''. The model '' @ m @ '' might be slow.''"]) simp

lemma could_not_connect_in_message:
  "sublist ''Could not connect'' (''Could not connect to Ollama at '' @ u)"
  unfolding sublist_def
  by (rule exI [of _ "[]"], rule exI [of _ "'' to Ollama at '' @ u"]) simp

lemma call_ollama_except_cases:
  "(is_requests_ConnectionError x \<longrightarrow>
      exc_class (call_ollama_except e x) = ConnectionError
      \<and> sublist ''Could not connect'' (exc_str (call_ollama_except e x)))
   \<and> (\<not> is_requests_ConnectionError x \<and> is_requests_Timeout x \<longrightarrow>
      exc_class (call_ollama_except e x) = TimeoutError
      \<and> sublist ''timed out'' (exc_str (call_ollama_except e x)))
   \<and> (\<not> is_requests_ConnectionError x \<and> \<not> is_requests_Timeout x \<longrightarrow>
      exc_class (call_ollama_except e x) = RuntimeError)"
proof (cases "is_requests_ConnectionError x")
  case True
  then have "call_ollama_except e x =
      Exn ConnectionError
        (''Could not connect to Ollama at '' @ (OLLAMA_API_URL e
           @ ''. Make sure Ollama is running and '' @ OLLAMA_MODEL e
           @ '' is loaded. Error: '' @ lib_str x))"
    unfolding call_ollama_except_def by (simp only: if_True)
  then show ?thesis
    using True could_not_connect_in_message by (simp only: exn.sel simp_thms)
next
  case False
  show ?thesis
  proof (cases "is_requests_Timeout x")
    case True
    with False have "call_ollama_except e x =
        Exn TimeoutError
          (''Request to Ollama timed out. The model '' @ OLLAMA_MODEL e @ '' might be slow.'')"
      unfolding call_ollama_except_def by (simp only: if_True if_False)
    then show ?thesis
      using True False timed_out_in_message by (simp only: exn.sel simp_thms)
  next
    case nt: False
    with False have "exc_class (call_ollama_except e x) = RuntimeError"
      unfolding call_ollama_except_def by (simp only: if_False exn.sel)
    with False nt show ?thesis by (simp only: simp_thms)
  qed
qed

lemma call_ollama_raises_post:
  assumes "requests_post e (length (http_log w)) (OLLAMA_API_URL e @ ''/api/generate'')
             (request_body e p) = Inl x"
  shows "fst (call_ollama e w tx p t) = Inl (call_ollama_except e x)"
  using assms by (simp add: call_ollama_def call_ollama_try_def Let_def)

lemma call_ollama_raises_status:
  assumes "requests_post e (length (http_log w)) (OLLAMA_API_URL e @ ''/api/generate'')
             (request_body e p) = Inr resp" "raise_for_status resp = Some x"
  shows "fst (call_ollama e w tx p t) = Inl (call_ollama_except e x)"
  using assms by (simp add: call_ollama_def call_ollama_try_def Let_def)

lemma call_ollama_raises_json:
  assumes "requests_post e (length (http_log w)) (OLLAMA_API_URL e @ ''/api/generate'')
             (request_body e p) = Inr resp" "raise_for_status resp = None" "json resp = Inl x"
  shows "fst (call_ollama e w tx p t) = Inl (call_ollama_except e x)"
  using assms by (simp add: call_ollama_def call_ollama_try_def Let_def)

lemma call_ollama_raises_not_dict:
  assumes "requests_post e (length (http_log w)) (OLLAMA_API_URL e @ ''/api/generate'')
             (request_body e p) = Inr resp" "raise_for_status resp = None" "json resp = Inr v"
    "\<forall>d. v \<noteq> PDict d"
  shows "fst (call_ollama e w tx p t) = Inl (call_ollama_except e (AttributeError v ''get''))"
  using assms by (cases v) (simp_all add: call_ollama_def call_ollama_try_def Let_def)

lemma call_ollama_raises_not_str:
  assumes "requests_post e (length (http_log w)) (OLLAMA_API_URL e @ ''/api/generate'')
             (request_body e p) = Inr resp" "raise_for_status resp = None"
    "json resp = Inr (PDict d)" "\<forall>s. dict_get d ''response'' (PStr []) \<noteq> PStr s"
  shows "fst (call_ollama e w tx p t) =
           Inl (call_ollama_except e (AttributeError (dict_get d ''response'' (PStr [])) ''strip''))"
  using assms
  by (cases "dict_get d ''response'' (PStr [])")
     (simp_all add: call_ollama_def call_ollama_try_def Let_def)

lemma timeout_post_raises:
  "requests_post env_timeout (length (http_log w_init))
     (OLLAMA_API_URL env_timeout @ ''/api/generate'') (request_body env_timeout ''prompt'') =
     Inl (Lib_exception False True ''Read timed out. (read timeout=30)'')"
  by (simp add: env_timeout_def)

lemma timeout_except:
  "call_ollama_except env_timeout (Lib_exception False True ''Read timed out. (read timeout=30)'')
     = Exn TimeoutError ''Request to Ollama timed out. The model llama3.1:8b might be slow.''"
  by (simp add: call_ollama_except_def OLLAMA_MODEL_def getenv_def env_timeout_def env_ok_def)

text \<open>
  Claim C5, amended. Every failure of the exchange with the server makes the model
  invocation raise: an exception of the post, an error status, an answer that is not
  JSON, and an answer that is not a dictionary with a string response, each handed to the
  \<^verbatim>\<open>except\<close> clauses. What these raise is of one of three kinds with three different
  names: \<^verbatim>\<open>ConnectionError\<close> for every connection error of the HTTP library, a timeout
  while connecting included (its message says "Could not connect"); \<^verbatim>\<open>TimeoutError\<close> for
  a timeout that is not a connection error (its message contains "timed out");
  \<^verbatim>\<open>RuntimeError\<close> for everything else. Whenever the invocation raises, the exception
  comes from these clauses, so no failure leaves under another kind.
\<close>

theorem call_ollama_failure_kinds:
  "(requests_post e (length (http_log w)) (OLLAMA_API_URL e @ ''/api/generate'')
      (request_body e p) = Inl x
    \<longrightarrow> fst (call_ollama e w tx p t) = Inl (call_ollama_except e x))
   \<and> (requests_post e (length (http_log w)) (OLLAMA_API_URL e @ ''/api/generate'')
        (request_body e p) = Inr resp \<and> raise_for_status resp = Some x
    \<longrightarrow> fst (call_ollama e w tx p t) = Inl (call_ollama_except e x))
   \<and> (requests_post e (length (http_log w)) (OLLAMA_API_URL e @ ''/api/generate'')
        (request_body e p) = Inr resp \<and> raise_for_status resp = None \<and> json resp = Inl x
    \<longrightarrow> fst (call_ollama e w tx p t) = Inl (call_ollama_except e x))
   \<and> (requests_post e (length (http_log w)) (OLLAMA_API_URL e @ ''/api/generate'')
        (request_body e p) = Inr resp \<and> raise_for_status resp = None \<and> json resp = Inr v
        \<and> (\<forall>d. v \<noteq> PDict d)
    \<longrightarrow> fst (call_ollama e w tx p t) = Inl (call_ollama_except e (AttributeError v ''get'')))
   \<and> (requests_post e (length (http_log w)) (OLLAMA_API_URL e @ ''/api/generate'')
        (request_body e p) = Inr resp \<and> raise_for_status resp = None
        \<and> json resp = Inr (PDict d) \<and> (\<forall>s. dict_get d ''response'' (PStr []) \<noteq> PStr s)
    \<longrightarrow> fst (call_ollama e w tx p t) =
          Inl (call_ollama_except e (AttributeError (dict_get d ''response'' (PStr [])) ''strip'')))
   \<and> (fst (call_ollama e w tx p t) = Inl err
    \<longrightarrow> (\<exists>y. err = call_ollama_except e y \<and> fst (call_ollama_try e w tx p t) = Inl y)
      \<and> exc_class err \<in> {ConnectionError, TimeoutError, RuntimeError})
   \<and> (is_requests_ConnectionError y \<longrightarrow>
        exc_class (call_ollama_except e y) = ConnectionError
        \<and> sublist ''Could not connect'' (exc_str (call_ollama_except e y)))
   \<and> (\<not> is_requests_ConnectionError y \<and> is_requests_Timeout y \<longrightarrow>
        exc_class (call_ollama_except e y) = TimeoutError
        \<and> sublist ''timed out'' (exc_str (call_ollama_except e y)))
   \<and> (\<not> is_requests_ConnectionError y \<and> \<not> is_requests_Timeout y \<longrightarrow>
        exc_class (call_ollama_except e y) = RuntimeError)
   \<and> distinct (map class_name [ConnectionError, TimeoutError, RuntimeError])"
  (is "?P1 \<and> ?P2 \<and> ?P3 \<and> ?P4 \<and> ?P5 \<and> ?P6 \<and> ?P7 \<and> ?P8 \<and> ?P9 \<and> ?P10")
proof -
  have 1: ?P1 using call_ollama_raises_post by blast
  have 2: ?P2 using call_ollama_raises_status by blast
  have 3: ?P3 using call_ollama_raises_json by blast
  have 4: ?P4 using call_ollama_raises_not_dict by blast
  have 5: ?P5 using call_ollama_raises_not_str by blast
  have 6: ?P6
  proof
    assume a: "fst (call_ollama e w tx p t) = Inl err"
    obtain t' w' where X: "call_ollama e w tx p t = (Inl err, t', w')"
      using a by (cases "call_ollama e w tx p t") auto
    from call_ollama_Inl [OF X] obtain z where
      z: "call_ollama_try e w tx p t = (Inl z, t, w')" and err: "err = call_ollama_except e z"
      by blast
    have k: "exc_class err \<in> {ConnectionError, TimeoutError, RuntimeError}"
      using call_ollama_except_cases [of z e] unfolding err by auto
    from z err k
    show "(\<exists>y. err = call_ollama_except e y \<and> fst (call_ollama_try e w tx p t) = Inl y)
      \<and> exc_class err \<in> {ConnectionError, TimeoutError, RuntimeError}"
      by auto
  qed
  note c = call_ollama_except_cases [of y e]
  have 7: ?P7 by (rule conjunct1 [OF c])
  have 8: ?P8 by (rule conjunct1 [OF conjunct2 [OF c]])
  have 9: ?P9 by (rule conjunct2 [OF conjunct2 [OF c]])
  have 10: ?P10 by simp
  from 1 2 3 4 5 6 7 8 9 10 show ?thesis
    by (intro conjI)
qed

theorem call_ollama_failure_kinds_witness:
  "fst (call_ollama env_timeout w_init tx1 ''prompt''
          (create_trace client0 ''unit'' None None None)) =
     Inl (Exn TimeoutError ''Request to Ollama timed out. The model llama3.1:8b might be slow.'')
   \<and> sublist ''timed out'' ''Request to Ollama timed out. The model llama3.1:8b might be slow.''"
proof -
  let ?x = "Lib_exception False True ''Read timed out. (read timeout=30)''"
  note r = call_ollama_failure_kinds [where e = env_timeout and w = w_init and p = "''prompt''" and x = ?x
      and y = ?x and tx = tx1 and t = "create_trace client0 ''unit'' None None None"]
  have a: "fst (call_ollama env_timeout w_init tx1 ''prompt''
          (create_trace client0 ''unit'' None None None)) = Inl (call_ollama_except env_timeout ?x)"
    by (rule mp [OF conjunct1 [OF r] timeout_post_raises])
  have f: "\<not> is_requests_ConnectionError ?x \<and> is_requests_Timeout ?x"
    by simp
  have b: "exc_class (call_ollama_except env_timeout ?x) = TimeoutError
      \<and> sublist ''timed out'' (exc_str (call_ollama_except env_timeout ?x))"
    by (rule mp [OF conjunct1 [OF conjunct2 [OF conjunct2 [OF conjunct2 [OF conjunct2
          [OF conjunct2 [OF conjunct2 [OF conjunct2 [OF r]]]]]]]] f])
  from a b show ?thesis
    by (simp only: timeout_except exn.sel simp_thms)
qed

text \<open>
  The claim as stated fails for a timeout while connecting: the HTTP library raises an
  exception that is both a connection error and a timeout, the first \<^verbatim>\<open>except\<close> clause
  takes it, and the caller sees the cannot-connect kind, not the timeout kind.
\<close>

theorem connect_timeout_surfaces_as_connection_error:
  "requests_post env_connect_timeout 0 ''http://localhost:11434/api/generate''
     (request_body env_connect_timeout ''prompt'') =
     Inl (Lib_exception True True ''Connection to localhost timed out. (connect timeout=30)'')
   \<and> is_requests_Timeout
       (Lib_exception True True ''Connection to localhost timed out. (connect timeout=30)'')
   \<and> fst (call_ollama env_connect_timeout w_init tx1 ''prompt''
          (create_trace client0 ''unit'' None None None)) =
     Inl (Exn ConnectionError
            (''Could not connect to Ollama at http://localhost:11434. Make sure Ollama is ''
               @ ''running and llama3.1:8b is loaded. Error: ''
               @ ''Connection to localhost timed out. (connect timeout=30)''))"
  by (simp add: call_ollama_def call_ollama_try_def call_ollama_except_def Let_def
      OLLAMA_API_URL_def OLLAMA_MODEL_def getenv_def env_connect_timeout_def env_ok_def w_init_def)

section \<open>Credentials\<close>

lemma get_langfuse_client_missing:
  assumes "environ e (upper p @ ''_PUBLIC_KEY'') = None \<or> environ e (upper p @ ''_PUBLIC_KEY'') = Some []
     \<or> environ e (upper p @ ''_SECRET_KEY'') = None \<or> environ e (upper p @ ''_SECRET_KEY'') = Some []"
  shows "get_langfuse_client e p h =
     Inl (Exn ValueError
            (''Missing Langfuse API keys for project '' @ [CHR 0x27] @ p
               @ [CHR 0x27] @ ''. Please set '' @ (upper p @ ''_PUBLIC_KEY'') @ '' and ''
               @ (upper p @ ''_SECRET_KEY'') @ '' in your .env file.''))"
proof -
  have "falsy (environ e (upper p @ ''_PUBLIC_KEY'')) \<or> falsy (environ e (upper p @ ''_SECRET_KEY''))"
    using assms by (auto simp: falsy_def)
  then show ?thesis
    unfolding get_langfuse_client_def Let_def by (simp only: if_True)
qed

lemma get_langfuse_client_present:
  assumes "environ e (upper p @ ''_PUBLIC_KEY'') = Some pk" "pk \<noteq> []"
    and "environ e (upper p @ ''_SECRET_KEY'') = Some sk" "sk \<noteq> []"
  shows "get_langfuse_client e p h = Inr \<lparr>public_key = pk, secret_key = sk, host = h\<rparr>"
  using assms by (simp add: get_langfuse_client_def Let_def falsy_def)

lemma upper_project: "upper PROJECT_NAME = ''BUDGET_CLAUDE''"
  by (simp add: PROJECT_NAME_def upper_def upper_char_def)

text \<open>
  Claim C6, amended. If one of the two keys of the project is absent from the environment
  or is the empty string, \<^verbatim>\<open>get_langfuse_client\<close> raises \<^verbatim>\<open>ValueError\<close>, the constructor of the
  categorizer raises the same exception and leaves the world untouched (no clock reading,
  no request posted), and \<^verbatim>\<open>main\<close> ends with no result, no trace and the world
  untouched. If both keys are present and not empty, \<^verbatim>\<open>get_langfuse_client\<close> returns the
  client built from them.
\<close>

theorem credentials_checked_first:
  "((environ e (upper p @ ''_PUBLIC_KEY'') = None \<or> environ e (upper p @ ''_PUBLIC_KEY'') = Some []
      \<or> environ e (upper p @ ''_SECRET_KEY'') = None \<or> environ e (upper p @ ''_SECRET_KEY'') = Some [])
     \<longrightarrow> (\<exists>msg. get_langfuse_client e p h = Inl (Exn ValueError msg)
            \<and> TransactionCategorizer e w p = (Inl (Exn ValueError msg), w)
            \<and> (p = PROJECT_NAME \<longrightarrow> main e w = ([], [], w))))
   \<and> (environ e (upper p @ ''_PUBLIC_KEY'') = Some pk \<and> pk \<noteq> []
        \<and> environ e (upper p @ ''_SECRET_KEY'') = Some sk \<and> sk \<noteq> []
     \<longrightarrow> get_langfuse_client e p h = Inr \<lparr>public_key = pk, secret_key = sk, host = h\<rparr>)"
proof (intro conjI impI)
  assume a: "environ e (upper p @ ''_PUBLIC_KEY'') = None \<or> environ e (upper p @ ''_PUBLIC_KEY'') = Some []
      \<or> environ e (upper p @ ''_SECRET_KEY'') = None \<or> environ e (upper p @ ''_SECRET_KEY'') = Some []"
  let ?msg = "''Missing Langfuse API keys for project '' @ [CHR 0x27] @ p
               @ [CHR 0x27] @ ''. Please set '' @ (upper p @ ''_PUBLIC_KEY'') @ '' and ''
               @ (upper p @ ''_SECRET_KEY'') @ '' in your .env file.''"
  have g: "get_langfuse_client e p h' = Inl (Exn ValueError ?msg)" for h'
    by (rule get_langfuse_client_missing [OF a])
  have c: "TransactionCategorizer e w p = (Inl (Exn ValueError ?msg), w)"
    unfolding TransactionCategorizer_def by (simp only: g sum.case)
  have m: "p = PROJECT_NAME \<longrightarrow> main e w = ([], [], w)"
  proof
    assume pe: "p = PROJECT_NAME"
    show "main e w = ([], [], w)"
      unfolding main_def using c [unfolded pe] by (simp only: prod.case sum.case)
  qed
  from g [of h] c m
  show "\<exists>msg. get_langfuse_client e p h = Inl (Exn ValueError msg)
            \<and> TransactionCategorizer e w p = (Inl (Exn ValueError msg), w)
            \<and> (p = PROJECT_NAME \<longrightarrow> main e w = ([], [], w))"
    by (intro exI [of _ ?msg] conjI)
next
  assume "environ e (upper p @ ''_PUBLIC_KEY'') = Some pk \<and> pk \<noteq> []
        \<and> environ e (upper p @ ''_SECRET_KEY'') = Some sk \<and> sk \<noteq> []"
  then show "get_langfuse_client e p h = Inr \<lparr>public_key = pk, secret_key = sk, host = h\<rparr>"
    by (simp add: get_langfuse_client_present)
qed

theorem credentials_checked_first_witness:
  "main env_no_keys w_init = ([], [], w_init)
   \<and> get_langfuse_client env_ok PROJECT_NAME default_langfuse_host = Inr client0"
proof -
  have h1: "environ env_no_keys (upper PROJECT_NAME @ ''_PUBLIC_KEY'') = None
      \<or> environ env_no_keys (upper PROJECT_NAME @ ''_PUBLIC_KEY'') = Some []
      \<or> environ env_no_keys (upper PROJECT_NAME @ ''_SECRET_KEY'') = None
      \<or> environ env_no_keys (upper PROJECT_NAME @ ''_SECRET_KEY'') = Some []"
    by (simp add: env_no_keys_def)
  have h2: "environ env_ok (upper PROJECT_NAME @ ''_PUBLIC_KEY'') = Some ''pk-1'' \<and> ''pk-1'' \<noteq> []
      \<and> environ env_ok (upper PROJECT_NAME @ ''_SECRET_KEY'') = Some ''sk-1'' \<and> ''sk-1'' \<noteq> []"
    by (simp add: env_ok_def upper_project)
  note a = credentials_checked_first [of env_no_keys PROJECT_NAME default_langfuse_host w_init "''pk-1''" "''sk-1''"]
  note b = credentials_checked_first [of env_ok PROJECT_NAME default_langfuse_host w_init "''pk-1''" "''sk-1''"]
  from mp [OF conjunct1 [OF a] h1] have "main env_no_keys w_init = ([], [], w_init)"
    by blast
  moreover from mp [OF conjunct2 [OF b] h2]
  have "get_langfuse_client env_ok PROJECT_NAME default_langfuse_host = Inr client0"
    by (simp add: client0_def default_langfuse_host_def)
  ultimately show ?thesis
    by (intro conjI)
qed

text \<open>
  The claim as stated fails where a key is set but empty: both variables are present in
  the environment and \<^verbatim>\<open>get_langfuse_client\<close> still raises the \<^verbatim>\<open>ValueError\<close>.
\<close>

theorem present_but_empty_key_raises:
  "environ env_empty_key ''BUDGET_CLAUDE_PUBLIC_KEY'' = Some []
   \<and> environ env_empty_key ''BUDGET_CLAUDE_SECRET_KEY'' = Some ''sk-1''
   \<and> get_langfuse_client env_empty_key ''budget_claude'' ''http://localhost:3001'' =
       Inl (Exn ValueError
              (''Missing Langfuse API keys for project '' @ [CHR 0x27] @ ''budget_claude''
                 @ [CHR 0x27] @ ''. Please set BUDGET_CLAUDE_PUBLIC_KEY and ''
                 @ ''BUDGET_CLAUDE_SECRET_KEY in your .env file.''))"
  by (simp add: get_langfuse_client_def env_empty_key_def env_ok_def upper_def upper_char_def
      falsy_def)

section \<open>Token usage\<close>






section \<open>Validation\<close>

lemma call_ollama_try_answer:
  assumes "requests_post e (length (http_log w)) (OLLAMA_API_URL e @ ''/api/generate'')
           (request_body e p) = Inr (Response None (Inr (PDict d)))"
    and "dict_get d ''response'' (PStr []) = PStr s"
  shows "call_ollama_try e w tx p t =
           (Inr (strip s, 0.95),
            add_generation t ''ollama_categorization'' (OLLAMA_MODEL e) p (strip s)
              (Some [(''prompt_tokens'', dict_get d ''prompt_eval_count'' (PInt 0)),
                     (''completion_tokens'', dict_get d ''eval_count'' (PInt 0))])
              (Some [(''temperature'', PFloat 0.3), (''top_p'', PFloat 0.9),
                     (''ollama_host'', PStr (OLLAMA_API_URL e))]),
            w\<lparr>http_log := http_log w @ [(OLLAMA_API_URL e @ ''/api/generate'', request_body e p)]\<rparr>)"
  using assms
  by (simp add: call_ollama_try_def Let_def)

lemma empty_answer_unit:
  "fst (categorize_transaction self0 env_empty w_init tx1) =
     Inr [(''transaction_id'', PStr ''txn_001''), (''description'', PStr ''Starbucks Coffee''),
          (''amount'', PFloat 5.5), (''category'', PStr []), (''confidence'', PFloat 0.95),
          (''processing_time_ms'', PFloat 1000)]"
  by (simp add: model_defs example_defs strip_def is_space_def)

text \<open>
  Claim C8, amended. The pipeline performs no sanity check. Whenever the server answers
  the request of a unit with a dictionary whose \<^verbatim>\<open>response\<close> is a string (or is missing),
  whatever the category that results, the empty one included, the unit returns its result
  with that category, the last observation of its trace is the span \<^verbatim>\<open>validate_result\<close>
  with the category and the confidence as input, the output "Validation passed" and the
  metadata \<^verbatim>\<open>valid = True\<close>, no observation is named "error", and the output of the trace
  is the result.
\<close>

theorem validation_always_passes:
  assumes "requests_post e (length (http_log w)) (OLLAMA_API_URL e @ ''/api/generate'')
           (request_body e (create_prompt e tx)) = Inr (Response None (Inr (PDict d)))"
    and "dict_get d ''response'' (PStr []) = PStr s"
  shows "\<exists>result. fst (categorize_transaction self e w tx) = Inr result
     \<and> map_of result ''category'' = Some (PStr (strip s))
     \<and> last (observations (fst (snd (categorize_transaction self e w tx)))) =
         Span ''validate_result''
           (''Category: '' @ strip s @ '', Confidence: '' @ float_str e 0.95)
           ''Validation passed'' [(''step'', PInt 4), (''valid'', PBool True)]
     \<and> filter (\<lambda>ob. obs_name ob = ''error'')
          (observations (fst (snd (categorize_transaction self e w tx)))) = []
     \<and> updates (fst (snd (categorize_transaction self e w tx))) = [PDict result]"
proof -
  have post: "requests_post e (length (http_log (w\<lparr>clock_reads := Suc (clock_reads w)\<rparr>)))
           (OLLAMA_API_URL e @ ''/api/generate'')
           (request_body e (create_prompt e tx)) = Inr (Response None (Inr (PDict d)))"
    using assms(1) by simp
  note eq = call_ollama_try_answer [OF post assms(2)]
  show ?thesis
    by (simp add: categorize_transaction_def categorize_try_def call_ollama_def Let_def
        time_time_def eq trace_simps or_str_def or_dict_def)
qed

theorem validation_always_passes_witness:
  "\<exists>result. fst (categorize_transaction self0 env_empty w_init tx1) = Inr result
     \<and> map_of result ''category'' = Some (PStr [])
     \<and> last (observations (fst (snd (categorize_transaction self0 env_empty w_init tx1)))) =
         Span ''validate_result'' ''Category: , Confidence: 0.95''
           ''Validation passed'' [(''step'', PInt 4), (''valid'', PBool True)]"
proof -
  have h1: "requests_post env_empty (length (http_log w_init))
      (OLLAMA_API_URL env_empty @ ''/api/generate'')
      (request_body env_empty (create_prompt env_empty tx1)) =
        Inr (Response None (Inr (PDict [(''response'', PStr [])])))"
    by (simp add: env_empty_def)
  have h2: "dict_get [(''response'', PStr [])] ''response'' (PStr []) = PStr []"
    by (simp add: dict_get_def)
  have s: "strip [] = []" and f: "float_str env_empty 0.95 = ''0.95''"
    by (simp_all add: strip_def env_empty_def env_ok_def)
  from validation_always_passes [OF h1 h2, of self0] show ?thesis
    unfolding s f by auto
qed

text \<open>
  The claim as stated fails on an empty category: the unit returns, and the only thing its
  trace says about validation is a span reporting that validation passed; no observation
  records a failure.
\<close>

theorem empty_category_reported_valid:
  "fst (categorize_transaction self0 env_empty w_init tx1) =
     Inr [(''transaction_id'', PStr ''txn_001''), (''description'', PStr ''Starbucks Coffee''),
          (''amount'', PFloat 5.5), (''category'', PStr []), (''confidence'', PFloat 0.95),
          (''processing_time_ms'', PFloat 1000)]
   \<and> map obs_name (observations (fst (snd (categorize_transaction self0 env_empty w_init tx1)))) =
       [''prepare_transaction_data'', ''create_prompt'', ''ollama_categorization'',
        ''validate_result'']
   \<and> last (observations (fst (snd (categorize_transaction self0 env_empty w_init tx1)))) =
       Span ''validate_result'' ''Category: , Confidence: 0.95'' ''Validation passed''
         [(''step'', PInt 4), (''valid'', PBool True)]"
  by (simp add: model_defs example_defs strip_def is_space_def)

section \<open>Batch processing\<close>

lemma unit_result_fields:
  assumes "categorize_transaction self e w tx = (Inr result, t, w')"
  shows "map_of result ''transaction_id'' = Some (PStr (tx_id tx))
     \<and> (\<exists>c. map_of result ''category'' = Some (PStr c))"
  using assms
  by (auto simp: categorize_transaction_def categorize_try_def Let_def
      split: sum.splits prod.splits)

lemma batch_unit_quiet:
  assumes "\<forall>k text. print_raises e k text = None"
  shows "\<exists>r t w'. batch_unit self e results w tx = (None, results @ [r], t, w')
           \<and> map_of r ''transaction_id'' = Some (PStr (tx_id tx))"
proof -
  obtain out t w1 where X: "categorize_transaction self e w tx = (out, t, w1)"
    by (cases "categorize_transaction self e w tx") auto
  show ?thesis
  proof (cases out)
    case (Inr result)
    with X unit_result_fields [of self e w tx result t w1] assms show ?thesis
      by (simp add: batch_unit_def py_print_def)
  next
    case (Inl err)
    with X assms show ?thesis
      by (simp add: batch_unit_def batch_except_def py_print_def)
  qed
qed

lemma categorize_batch_loop_quiet:
  assumes "\<forall>k text. print_raises e k text = None"
  shows "\<exists>rs. fst (categorize_batch_loop self e (results, traces, w) txs) = Inr (results @ rs)
           \<and> length rs = length txs
           \<and> map (\<lambda>r. map_of r ''transaction_id'') rs = map (\<lambda>tx. Some (PStr (tx_id tx))) txs"
proof (induction txs arbitrary: results traces w)
  case Nil
  show ?case by simp
next
  case (Cons tx txs)
  from batch_unit_quiet [OF assms, of self results w tx] obtain r t w' where
    u: "batch_unit self e results w tx = (None, results @ [r], t, w')"
    and id: "map_of r ''transaction_id'' = Some (PStr (tx_id tx))"
    by blast
  from Cons.IH [of "results @ [r]" "traces @ [t]" w'] obtain rs where
    rs: "fst (categorize_batch_loop self e (results @ [r], traces @ [t], w') txs) =
           Inr ((results @ [r]) @ rs)"
      "length rs = length txs"
      "map (\<lambda>r. map_of r ''transaction_id'') rs = map (\<lambda>tx. Some (PStr (tx_id tx))) txs"
    by blast
  show ?case
    by (rule exI [of _ "r # rs"]) (simp add: u rs id)
qed

text \<open>When the console takes every line, the batch returns one result per transaction, in
  input order.\<close>

lemma categorize_batch_quiet:
  assumes "\<forall>k text. print_raises e k text = None"
  shows "\<exists>rs. fst (categorize_batch self e w txs) = Inr rs
           \<and> length rs = length txs
           \<and> map (\<lambda>r. map_of r ''transaction_id'') rs = map (\<lambda>tx. Some (PStr (tx_id tx))) txs"
  using categorize_batch_loop_quiet [OF assms, of self "[]" "[]" w txs]
  by (simp add: categorize_batch_def)

lemmas batch_defs =
  categorize_batch_def batch_unit_def batch_except_def py_print_def category_text_def

text \<open>
  Claim C9. On the code the property fails when a progress line cannot be printed. With a
  console whose first write fails, the batch of one transaction returns two results for
  it: the result of the unit, appended before the progress line is printed, and the error
  dictionary of the \<^verbatim>\<open>except\<close> clause. With a console that cannot encode the marks of the
  progress lines, the failure line of the \<^verbatim>\<open>except\<close> clause raises as well: the batch of
  two transactions ends with that exception after the first unit, and the second is never
  processed (one request was posted).
\<close>

theorem batch_breaks_when_print_raises:
  "fst (categorize_batch self0 env_first_print_fails w_init [tx1]) =
     Inr [[(''transaction_id'', PStr ''txn_001''), (''description'', PStr ''Starbucks Coffee''),
           (''amount'', PFloat 5.5), (''category'', PStr ''Shopping''),
           (''confidence'', PFloat 0.95), (''processing_time_ms'', PFloat 1000)],
          [(''transaction_id'', PStr ''txn_001''), (''description'', PStr ''Starbucks Coffee''),
           (''amount'', PFloat 5.5), (''error'', PStr ''write failed'')]]
   \<and> fst (categorize_batch self0 env_ascii_stdout w_init [tx1, tx2]) =
       Inl (Exn (OtherError ''UnicodeEncodeError'') ''ordinal not in range(128)'')
   \<and> length (http_log (snd (snd (categorize_batch self0 env_ascii_stdout w_init [tx1, tx2])))) = 1"
  by (simp add: batch_defs model_defs example_defs strip_def is_space_def check_mark_def
      cross_mark_def arrow_def)

end
